theory Spec2Isabelle
  imports Complex_Main
begin

section \<open>The example script \<open>docs/main/example-log.js\<close>\<close>

text \<open>
  The script has one function, \<open>run\<close>: it fetches \<open>../../overview.json\<close>, decodes
  it, builds a chart description \<open>params\<close> and hands it to \<open>Graphima.createMain\<close>
  together with the global \<open>CONFIG\<close>.

  JavaScript arrays are objects with identity, so they live in an explicit store: an
  address is an index into the store, and an allocation appends to it. Numbers are
  IEEE-754 doubles: their finite values are real numbers, and their product is the
  engine's multiplication, taken as given, not the product of the reals.

  The decoded document is typed as the script uses it: an object with a \<open>names\<close>
  object of strings and a \<open>columns\<close> array of flat arrays of JSON scalars. What
  stays dynamic is modelled as such: a missing name is undefined, and a missing column
  is undefined, on which \<open>slice\<close> throws a TypeError.
\<close>

subsection \<open>Values, store and errors\<close>

datatype error = TypeError | SyntaxError | AbortError

text \<open>
  A JavaScript number: a finite value (positive zero is \<open>Finite 0\<close>), negative zero, an
  infinity, or NaN.
\<close>

datatype double = Finite real | NegZero | PosInfinity | NegInfinity | NaN

text \<open>
  The arithmetic of the engine that runs the script: the product of two numbers, which
  rounds, overflows to an infinity and keeps the sign of zero as IEEE-754 multiplication
  does, and the conversion of a string to a number. Both are taken as given.
\<close>

record arith =
  NumberMultiply :: "double \<Rightarrow> double \<Rightarrow> double"
  StringToNumber :: "string \<Rightarrow> double"

text \<open>The elements of a column: null, a boolean, a number or a string.\<close>

datatype cell = JNull | JBool bool | JNum double | JStr string

type_synonym addr = nat

type_synonym heap = "cell list list"

text \<open>
  A rejected promise and a thrown exception both end \<open>run\<close> with an error. A
  computation reads and extends the store and either returns a value or throws.
\<close>

type_synonym 'a js = "heap \<Rightarrow> (error + 'a) \<times> heap"

definition return_js :: "'a \<Rightarrow> 'a js" where
  "return_js x h = (Inr x, h)"

definition throw :: "error \<Rightarrow> 'a js" where
  "throw e h = (Inl e, h)"

definition and_then :: "'a js \<Rightarrow> ('a \<Rightarrow> 'b js) \<Rightarrow> 'b js" where
  "and_then m f h = (case m h of (Inl e, h') \<Rightarrow> (Inl e, h') | (Inr x, h') \<Rightarrow> f x h')"

definition alloc :: "cell list \<Rightarrow> addr js" where
  "alloc xs h = (Inr (length h), h @ [xs])"

subsection \<open>The decoded document\<close>

text \<open>
  \<open>response.json()\<close> settles to a document with a \<open>names\<close> object (display names by
  key) and a \<open>columns\<close> array of arrays. \<open>json_doc\<close> is the document as a value;
  \<open>data\<close> is the decoded object, whose columns are arrays in the store.
\<close>

record json_doc =
  doc_names :: "string \<rightharpoonup> string"
  doc_columns :: "cell list list"

record data =
  names :: "string \<rightharpoonup> string"
  columns :: "addr list"

fun alloc_all :: "cell list list \<Rightarrow> addr list js" where
  "alloc_all [] = return_js []"
| "alloc_all (c # cs) =
     and_then (alloc c) (\<lambda>a. and_then (alloc_all cs) (\<lambda>as. return_js (a # as)))"

definition decode :: "json_doc \<Rightarrow> data js" where
  "decode doc =
     and_then (alloc_all (doc_columns doc))
       (\<lambda>as. return_js \<lparr>names = doc_names doc, columns = as\<rparr>)"

subsection \<open>The host: everything the script reads from outside\<close>

text \<open>
  \<open>fetch\<close> either rejects or yields a response, whose \<open>json()\<close> either rejects or
  yields the document. The host also supplies the global \<open>CONFIG\<close>, the arithmetic
  of its engine, and the store as it is when \<open>run\<close> starts.
\<close>

datatype response = Response "error + json_doc"

record 'cfg host =
  fetch :: "string \<Rightarrow> error + response"
  numbers :: arith
  CONFIG :: 'cfg
  heap0 :: heap

subsection \<open>Array methods and operators used by \<open>run\<close>\<close>

text \<open>\<open>data.columns[i]\<close>: an element, or undefined (\<open>None\<close>) past the end.\<close>

definition column_at :: "data \<Rightarrow> nat \<Rightarrow> addr option" where
  "column_at d i = (if i < length (columns d) then Some (columns d ! i) else None)"

text \<open>
  \<open>x.slice(1)\<close>: a new array holding the elements of \<open>x\<close> from index 1 on; calling it
  on undefined throws a TypeError. The address of an existing array is in range of the
  store: those that \<open>alloc\<close> returns are, and so are the columns of a well-formed
  object (\<open>wf_data\<close> below).
\<close>

definition slice1 :: "addr option \<Rightarrow> addr js" where
  "slice1 x h = (case x of None \<Rightarrow> throw TypeError h | Some a \<Rightarrow> alloc (drop 1 (h ! a)) h)"

text \<open>\<open>x.map(f)\<close>: a new array holding the images of the elements of \<open>x\<close>.\<close>

definition map_array :: "(cell \<Rightarrow> cell) \<Rightarrow> addr \<Rightarrow> addr js" where
  "map_array f a h = alloc (map f (h ! a)) h"

text \<open>
  \<open>v * k\<close> coerces \<open>v\<close> to a number first (null is 0, true is 1, false is 0, a string
  is what the engine's conversion gives) and then multiplies as the engine does.
\<close>

fun ToNumber :: "arith \<Rightarrow> cell \<Rightarrow> double" where
  "ToNumber ar JNull = Finite 0"
| "ToNumber ar (JBool b) = Finite (if b then 1 else 0)"
| "ToNumber ar (JNum x) = x"
| "ToNumber ar (JStr s) = StringToNumber ar s"

definition times_js :: "arith \<Rightarrow> cell \<Rightarrow> double \<Rightarrow> cell" where
  "times_js ar v k = JNum (NumberMultiply ar (ToNumber ar v) k)"

text \<open>A template literal prints an undefined property as \<open>undefined\<close>.\<close>

definition template :: "string option \<Rightarrow> string" where
  "template x = (case x of None \<Rightarrow> ''undefined'' | Some s \<Rightarrow> s)"

subsection \<open>The chart description\<close>

record SeriesSpec =
  name :: "string option"
  coords :: addr
  "values" :: addr

record ChartSpec =
  selector :: string
  contentName :: string
  coordType :: string
  valueType :: string
  dataSets :: "SeriesSpec list"

text \<open>
  The object literal of \<open>run\<close>, its properties evaluated in source order. Each
  \<open>slice\<close> and each \<open>map\<close> allocates.
\<close>

definition build_params :: "arith \<Rightarrow> data \<Rightarrow> ChartSpec js" where
  "build_params ar d =
     and_then (slice1 (column_at d 0)) (\<lambda>c0.
     and_then (slice1 (column_at d 1)) (\<lambda>v0.
     and_then (slice1 (column_at d 0)) (\<lambda>c1.
     and_then (slice1 (column_at d 2)) (\<lambda>t1.
     and_then (map_array (\<lambda>v. times_js ar v (Finite 100)) t1) (\<lambda>v1.
     and_then (slice1 (column_at d 0)) (\<lambda>c2.
     and_then (slice1 (column_at d 2)) (\<lambda>t2.
     and_then (map_array (\<lambda>v. times_js ar v (Finite 1000)) t2) (\<lambda>v2.
     return_js
       \<lparr>selector = ''#chart-2'',
        contentName = ''New chart'',
        coordType = ''date'',
        valueType = ''number'',
        dataSets =
          [\<lparr>name = names d ''y0'', coords = c0, values = v0\<rparr>,
           \<lparr>name = Some (template (names d ''y1'') @ '' x 100''), coords = c1, values = v1\<rparr>,
           \<lparr>name = Some (template (names d ''y1'') @ '' x 1000''), coords = c2, values = v2\<rparr>]\<rparr>
     ))))))))"

text \<open>
  The outcome of a run: the calls made to \<open>Graphima.createMain\<close>, the store at the
  end, and how the promise settles. The return value of \<open>createMain\<close> is discarded;
  what the call does is outside the script, and the result is how \<open>run\<close> settles once
  the call has returned.
\<close>

record 'cfg outcome =
  result :: "error + unit"
  createMain_calls :: "(ChartSpec \<times> 'cfg) list"
  final_heap :: heap

definition run :: "'cfg host \<Rightarrow> 'cfg outcome" where
  "run host =
     (case fetch host ''../../overview.json'' of
        Inl e \<Rightarrow> \<lparr>result = Inl e, createMain_calls = [], final_heap = heap0 host\<rparr>
      | Inr (Response body) \<Rightarrow>
          (case body of
             Inl e \<Rightarrow> \<lparr>result = Inl e, createMain_calls = [], final_heap = heap0 host\<rparr>
           | Inr doc \<Rightarrow>
               (case and_then (decode doc) (build_params (numbers host)) (heap0 host) of
                  (Inl e, h) \<Rightarrow> \<lparr>result = Inl e, createMain_calls = [], final_heap = h\<rparr>
                | (Inr params, h) \<Rightarrow>
                    \<lparr>result = Inr (), createMain_calls = [(params, CONFIG host)],
                     final_heap = h\<rparr>)))"


text \<open>The contents of a series' arrays in a store.\<close>

definition series_coords :: "heap \<Rightarrow> SeriesSpec \<Rightarrow> cell list" where
  "series_coords h s = h ! coords s"

definition series_values :: "heap \<Rightarrow> SeriesSpec \<Rightarrow> cell list" where
  "series_values h s = h ! values s"

text \<open>
  A decoded object is well formed in a store when its columns are arrays of the store;
  what \<open>decode\<close> returns always is.
\<close>

definition wf_data :: "heap \<Rightarrow> data \<Rightarrow> bool" where
  "wf_data h d = list_all (\<lambda>a. a < length h) (columns d)"

subsection \<open>Structural views\<close>

text \<open>
  Two object graphs are structurally equal when they agree once every address is
  replaced by the contents of the array it names.
\<close>

definition series_view :: "heap \<Rightarrow> SeriesSpec \<Rightarrow> string option \<times> cell list \<times> cell list" where
  "series_view h s = (name s, series_coords h s, series_values h s)"

definition params_view ::
  "heap \<Rightarrow> ChartSpec \<Rightarrow>
     string \<times> string \<times> string \<times> string \<times> (string option \<times> cell list \<times> cell list) list" where
  "params_view h p =
     (selector p, contentName p, coordType p, valueType p, map (series_view h) (dataSets p))"

definition data_view :: "heap \<Rightarrow> data \<Rightarrow> (string \<rightharpoonup> string) \<times> cell list list" where
  "data_view h d = (names d, map (\<lambda>a. h ! a) (columns d))"

definition built_view ::
  "arith \<Rightarrow> data \<Rightarrow> heap \<Rightarrow>
     error + string \<times> string \<times> string \<times> string \<times> (string option \<times> cell list \<times> cell list) list" where
  "built_view ar d h =
     (case build_params ar d h of (Inl e, h') \<Rightarrow> Inl e | (Inr p, h') \<Rightarrow> Inr (params_view h' p))"

text \<open>What a run passed to \<open>Graphima.createMain\<close> as \<open>params\<close>, call by call, as structure.\<close>

definition passed_params ::
  "'cfg outcome \<Rightarrow>
     (string \<times> string \<times> string \<times> string \<times> (string option \<times> cell list \<times> cell list) list) list" where
  "passed_params out = map (\<lambda>call. params_view (final_heap out) (fst call)) (createMain_calls out)"

subsection \<open>The result of \<open>build_params\<close> in closed form\<close>

text \<open>
  With \<open>n\<close> arrays in the store before, the eight allocations of \<open>build_params\<close> land at
  \<open>n\<close>, ..., \<open>n + 7\<close>; the arrays at \<open>n + 3\<close> and \<open>n + 6\<close> are the intermediate slices
  that \<open>map\<close> reads.
\<close>

definition built_spec :: "data \<Rightarrow> nat \<Rightarrow> ChartSpec" where
  "built_spec d n =
     \<lparr>selector = ''#chart-2'', contentName = ''New chart'', coordType = ''date'',
      valueType = ''number'',
      dataSets =
        [\<lparr>name = names d ''y0'', coords = n, values = n + 1\<rparr>,
         \<lparr>name = Some (template (names d ''y1'') @ '' x 100''), coords = n + 2,
          values = n + 4\<rparr>,
         \<lparr>name = Some (template (names d ''y1'') @ '' x 1000''), coords = n + 5,
          values = n + 7\<rparr>]\<rparr>"

definition built_arrays ::
  "arith \<Rightarrow> cell list \<Rightarrow> cell list \<Rightarrow> cell list \<Rightarrow> heap" where
  "built_arrays ar c0 c1 c2 =
     [drop 1 c0, drop 1 c1, drop 1 c0, drop 1 c2, map (\<lambda>v. times_js ar v (Finite 100)) (drop 1 c2),
      drop 1 c0, drop 1 c2, map (\<lambda>v. times_js ar v (Finite 1000)) (drop 1 c2)]"

subsection \<open>The type tags the engine accepts\<close>

text \<open>
  Modelled from the spec: the engine that reads \<open>coordType\<close> and \<open>valueType\<close> is not
  part of the example; its data model allows the coordinate tags date, number and
  category, and the value tag number.
\<close>

text \<open>Modelled from the spec: the coordinate type tags of the engine's \<open>ChartSpec\<close>.\<close>

definition allowed_coordTypes :: "string set" where
  "allowed_coordTypes = {''date'', ''number'', ''category''}"

text \<open>Modelled from the spec: the value type tags of the engine's \<open>ChartSpec\<close>.\<close>

definition allowed_valueTypes :: "string set" where
  "allowed_valueTypes = {''number''}"

subsection \<open>Sample documents\<close>

text \<open>
  A store with three columns of a header and two samples each, the object decoded from
  it, and the description and store that \<open>build_params\<close> yields there; a second store
  whose columns differ in length and hold null, a boolean and NaN; and two hosts that
  serve the first document from different stores with different \<open>CONFIG\<close>s. The sample
  arithmetic multiplies finite numbers exactly and reads no string as a number.
\<close>

definition ex_heap :: heap where
  "ex_heap =
     [[JStr ''x'', JNum (Finite 1), JNum (Finite 2)], [JStr ''y0'', JNum (Finite 10), JNum (Finite 20)],
      [JStr ''y1'', JNum (Finite 3), JNum (Finite 4)]]"

definition ex_data :: data where
  "ex_data = \<lparr>names = [''y0'' \<mapsto> ''Joined'', ''y1'' \<mapsto> ''Left''], columns = [0, 1, 2]\<rparr>"

fun ex_times :: "double \<Rightarrow> double \<Rightarrow> double" where
  "ex_times (Finite a) (Finite b) = Finite (a * b)"
| "ex_times x y = NaN"

definition ex_arith :: arith where
  "ex_arith = \<lparr>NumberMultiply = ex_times, StringToNumber = (\<lambda>s. NaN)\<rparr>"

definition ex_params :: ChartSpec where
  "ex_params =
     \<lparr>selector = ''#chart-2'', contentName = ''New chart'', coordType = ''date'',
      valueType = ''number'',
      dataSets =
        [\<lparr>name = Some ''Joined'', coords = 3, values = 4\<rparr>,
         \<lparr>name = Some ''Left x 100'', coords = 5, values = 7\<rparr>,
         \<lparr>name = Some ''Left x 1000'', coords = 8, values = 10\<rparr>]\<rparr>"

definition ex_heap' :: heap where
  "ex_heap' = ex_heap @
     [[JNum (Finite 1), JNum (Finite 2)], [JNum (Finite 10), JNum (Finite 20)], [JNum (Finite 1), JNum (Finite 2)], [JNum (Finite 3), JNum (Finite 4)],
      [JNum (Finite 300), JNum (Finite 400)], [JNum (Finite 1), JNum (Finite 2)], [JNum (Finite 3), JNum (Finite 4)], [JNum (Finite 3000), JNum (Finite 4000)]]"

definition ex_heap2 :: heap where
  "ex_heap2 =
     [[JStr ''x'', JNum (Finite 1), JNum (Finite 2)], [JNull, JNum (Finite 7)], [JStr ''b'', JNum (Finite 5), JBool True, JNum NaN], []]"

definition ex_data2 :: data where
  "ex_data2 = \<lparr>names = Map.empty, columns = [0, 2, 1, 3]\<rparr>"

definition ex_params2 :: ChartSpec where
  "ex_params2 =
     \<lparr>selector = ''#chart-2'', contentName = ''New chart'', coordType = ''date'',
      valueType = ''number'',
      dataSets =
        [\<lparr>name = None, coords = 4, values = 5\<rparr>,
         \<lparr>name = Some ''undefined x 100'', coords = 6, values = 8\<rparr>,
         \<lparr>name = Some ''undefined x 1000'', coords = 9, values = 11\<rparr>]\<rparr>"

definition ex_heap2' :: heap where
  "ex_heap2' = ex_heap2 @
     [[JNum (Finite 1), JNum (Finite 2)], [JNum (Finite 5), JBool True, JNum NaN], [JNum (Finite 1), JNum (Finite 2)], [JNum (Finite 7)],
      [JNum (Finite 700)], [JNum (Finite 1), JNum (Finite 2)], [JNum (Finite 7)], [JNum (Finite 7000)]]"

definition ex_doc :: json_doc where
  "ex_doc = \<lparr>doc_names = [''y0'' \<mapsto> ''Joined'', ''y1'' \<mapsto> ''Left''], doc_columns = ex_heap\<rparr>"

definition ex_host :: "nat host" where
  "ex_host =
     \<lparr>fetch = (\<lambda>url. if url = ''../../overview.json'' then Inr (Response (Inr ex_doc))
                     else Inl TypeError),
      numbers = ex_arith, CONFIG = 7, heap0 = []\<rparr>"

definition ex_host2 :: "nat host" where
  "ex_host2 =
     \<lparr>fetch = (\<lambda>url. Inr (Response (Inr ex_doc))),
      numbers = ex_arith, CONFIG = 9, heap0 = [[JNull], []]\<rparr>"






section \<open>The scale of the charting engine\<close>

text \<open>
  Modelled from the spec: the charting engine behind \<open>Graphima.createMain\<close> is not among
  the sources, so its Scale component follows the specification's words. A scale is built
  from a non-empty sequence of domain values and a pixel range; the domain is the true
  minimum and maximum of the values; a degenerate domain is expanded symmetrically, by
  1 unit for dates, and for numbers by 1 percent of the magnitude, or by 1 at zero;
  building from no values fails with \<open>EmptyDomain\<close>. \<open>toPixel\<close> and \<open>toDomain\<close>
  are linear interpolations, undefined (\<open>None\<close>) where they would divide by zero.
  Domain values and pixels are exact reals.
\<close>

datatype domain_kind = DateDomain | NumberDomain

datatype scale_error = EmptyDomain

record Scale =
  domainMin :: real
  domainMax :: real
  rangeMin :: real
  rangeMax :: real

text \<open>
  Modelled from the spec: the engine's degenerate-domain policy, the symmetric expansion
  of a domain whose minimum and maximum are the same value \<open>v\<close>.
\<close>

definition widen :: "domain_kind \<Rightarrow> real \<Rightarrow> real \<times> real" where
  "widen k v =
     (case k of
        DateDomain \<Rightarrow> (v - 1, v + 1)
      | NumberDomain \<Rightarrow> if v = 0 then (- 1, 1) else (v - \<bar>v\<bar> / 100, v + \<bar>v\<bar> / 100))"

text \<open>
  Modelled from the spec: the engine's \<open>Scale.build\<close>, from the domain values and the
  pixel range.
\<close>

definition build_scale :: "domain_kind \<Rightarrow> real list \<Rightarrow> real \<times> real \<Rightarrow> scale_error + Scale" where
  "build_scale k vs rng =
     (case vs of
        [] \<Rightarrow> Inl EmptyDomain
      | v # rest \<Rightarrow>
          (let lo = fold min rest v; hi = fold max rest v;
               dom = (if lo = hi then widen k lo else (lo, hi))
           in Inr \<lparr>domainMin = fst dom, domainMax = snd dom,
                   rangeMin = fst rng, rangeMax = snd rng\<rparr>))"

text \<open>Modelled from the spec: the engine's \<open>Scale.toPixel\<close>, a linear interpolation.\<close>

definition toPixel :: "Scale \<Rightarrow> real \<Rightarrow> real option" where
  "toPixel s v =
     (if domainMax s = domainMin s then None
      else Some (rangeMin s + (v - domainMin s) / (domainMax s - domainMin s)
                   * (rangeMax s - rangeMin s)))"

text \<open>Modelled from the spec: the engine's \<open>Scale.toDomain\<close>, the inverse interpolation.\<close>

definition toDomain :: "Scale \<Rightarrow> real \<Rightarrow> real option" where
  "toDomain s q =
     (if rangeMax s = rangeMin s then None
      else Some (domainMin s + (q - rangeMin s) / (rangeMax s - rangeMin s)
                   * (domainMax s - domainMin s)))"

section \<open>Properties of the example\<close>

subsection \<open>What \<open>build_params\<close> and \<open>run\<close> compute\<close>

lemma wf_column:
  "wf_data h d \<Longrightarrow> i < length (columns d) \<Longrightarrow> columns d ! i < length h"
  by (simp add: wf_data_def list_all_length)

lemma fresh_not_column: "wf_data h d \<Longrightarrow> length h \<le> a \<Longrightarrow> a \<notin> set (columns d)"
  by (fastforce simp add: wf_data_def list_all_iff)

lemma build_params_ok:
  assumes "3 \<le> length (columns d)" and "wf_data h d"
  shows "build_params ar d h =
    (Inr (built_spec d (length h)),
     h @ built_arrays ar (h ! (columns d ! 0)) (h ! (columns d ! 1)) (h ! (columns d ! 2)))"
proof -
  have a: "columns d ! 0 < length h" "columns d ! 1 < length h" "columns d ! 2 < length h"
    using assms(1) by (auto intro!: wf_column [OF assms(2)])
  have b: "columns d \<noteq> []" "Suc 0 < length (columns d)" "2 < length (columns d)"
    using assms(1) by auto
  show ?thesis
    using a b
    by (simp add: build_params_def and_then_def slice1_def column_at_def alloc_def
        map_array_def return_js_def built_spec_def built_arrays_def nth_append)
qed

lemma build_params_fail:
  assumes "length (columns d) < 3"
  shows "fst (build_params ar d h) = Inl TypeError"
  using assms
  by (auto simp add: build_params_def and_then_def slice1_def column_at_def alloc_def
        map_array_def return_js_def throw_def)

lemma build_params_extends: "\<exists>xs. snd (build_params ar d h) = h @ xs"
  by (auto simp add: build_params_def and_then_def slice1_def column_at_def alloc_def
        map_array_def return_js_def throw_def split: option.splits)

lemma build_params_Inr:
  assumes "wf_data h d" and "build_params ar d h = (Inr p, h')"
  shows "3 \<le> length (columns d)"
    and "p = built_spec d (length h)"
    and "h' = h @ built_arrays ar (h ! (columns d ! 0)) (h ! (columns d ! 1)) (h ! (columns d ! 2))"
proof -
  show len: "3 \<le> length (columns d)"
  proof (rule ccontr)
    assume "\<not> 3 \<le> length (columns d)"
    then have "fst (build_params ar d h) = Inl TypeError"
      by (simp add: build_params_fail)
    with assms(2) show False by simp
  qed
  from build_params_ok [OF len assms(1), of ar] assms(2)
  show "p = built_spec d (length h)"
    and "h' = h @ built_arrays ar (h ! (columns d ! 0)) (h ! (columns d ! 1)) (h ! (columns d ! 2))"
    by simp_all
qed

lemma build_params_spec:
  assumes "build_params ar d h = (Inr p, h')"
  shows "p = built_spec d (length h)"
proof -
  have len: "3 \<le> length (columns d)"
  proof (rule ccontr)
    assume "\<not> 3 \<le> length (columns d)"
    then have "fst (build_params ar d h) = Inl TypeError"
      by (simp add: build_params_fail)
    with assms show False by simp
  qed
  then have b: "columns d \<noteq> []" "Suc 0 < length (columns d)" "2 < length (columns d)"
    by auto
  have "fst (build_params ar d h) = Inr (built_spec d (length h))"
    using b
    by (simp add: build_params_def and_then_def slice1_def column_at_def alloc_def
        map_array_def return_js_def built_spec_def)
  with assms show ?thesis by simp
qed

lemma built_coords:
  "map (series_coords (h @ built_arrays ar c0 c1 c2)) (dataSets (built_spec d (length h))) =
     [drop 1 c0, drop 1 c0, drop 1 c0]"
  by (simp add: built_spec_def built_arrays_def series_coords_def nth_append)

lemma built_values:
  "map (series_values (h @ built_arrays ar c0 c1 c2)) (dataSets (built_spec d (length h))) =
     [drop 1 c1, map (\<lambda>v. times_js ar v (Finite 100)) (drop 1 c2),
      map (\<lambda>v. times_js ar v (Finite 1000)) (drop 1 c2)]"
  by (simp add: built_spec_def built_arrays_def series_values_def nth_append)

lemma built_fresh:
  "list_all (\<lambda>s. length h \<le> coords s \<and> length h \<le> values s)
     (dataSets (built_spec d (length h)))"
  by (simp add: built_spec_def)

lemma built_params_view:
  "params_view (h @ built_arrays ar c0 c1 c2) (built_spec d (length h)) =
     (''#chart-2'', ''New chart'', ''date'', ''number'',
      [(names d ''y0'', drop 1 c0, drop 1 c1),
       (Some (template (names d ''y1'') @ '' x 100''), drop 1 c0,
        map (\<lambda>v. times_js ar v (Finite 100)) (drop 1 c2)),
       (Some (template (names d ''y1'') @ '' x 1000''), drop 1 c0,
        map (\<lambda>v. times_js ar v (Finite 1000)) (drop 1 c2))])"
  by (simp add: params_view_def series_view_def built_spec_def built_arrays_def
      series_coords_def series_values_def nth_append)

lemma build_params_coords:
  assumes "wf_data h d" and "build_params ar d h = (Inr p, h')"
  shows "map (series_coords h') (dataSets p) = replicate 3 (drop 1 (h ! (columns d ! 0)))"
  using build_params_Inr [OF assms] by (simp add: built_coords numeral_3_eq_3)

lemma build_params_values:
  assumes "wf_data h d" and "build_params ar d h = (Inr p, h')"
  shows "map (series_values h') (dataSets p) =
       [drop 1 (h ! (columns d ! 1)),
        map (\<lambda>v. times_js ar v (Finite 100)) (drop 1 (h ! (columns d ! 2))),
        map (\<lambda>v. times_js ar v (Finite 1000)) (drop 1 (h ! (columns d ! 2)))]"
  using build_params_Inr [OF assms] by (simp add: built_values)

lemma nth3_of_map:
  assumes "map f xs = [a, b, c]"
  shows "f (xs ! 0) = a" and "f (xs ! Suc 0) = b" and "f (xs ! 2) = c"
proof -
  have "length (map f xs) = 3" unfolding assms by simp
  then have len: "length xs = 3" by simp
  have "map f xs ! 0 = a" "map f xs ! Suc 0 = b" "map f xs ! 2 = c"
    unfolding assms by simp_all
  with len show "f (xs ! 0) = a" and "f (xs ! Suc 0) = b" and "f (xs ! 2) = c"
    by simp_all
qed


text \<open>Decoding puts the columns into the store, in order, behind what was there.\<close>

lemma upt_shift: "[n..<n + Suc k] = n # [Suc n..<Suc n + k]"
  by (simp add: upt_conv_Cons)

lemma alloc_all_eq:
  "alloc_all cs h = (Inr [length h..<length h + length cs], h @ cs)"
proof (induction cs arbitrary: h)
  case Nil
  show ?case by (simp add: return_js_def)
next
  case (Cons c cs)
  show ?case
    using upt_shift [of "length h" "length cs"]
    by (simp add: and_then_def alloc_def return_js_def Cons.IH)
qed

lemma decode_eq:
  "decode doc h =
     (Inr \<lparr>names = doc_names doc, columns = [length h..<length h + length (doc_columns doc)]\<rparr>,
      h @ doc_columns doc)"
  by (simp add: decode_def and_then_def alloc_all_eq return_js_def)

lemma wf_decoded:
  "wf_data (h @ cs) \<lparr>names = ns, columns = [length h..<length h + length cs]\<rparr>"
  by (simp add: wf_data_def list_all_iff)

lemma decoded_contents: "map (\<lambda>a. (h @ cs) ! a) [length h..<length h + length cs] = cs"
  by (rule nth_equalityI) simp_all

lemma data_view_decoded:
  "data_view (h @ cs) \<lparr>names = ns, columns = [length h..<length h + length cs]\<rparr> = (ns, cs)"
  by (simp add: data_view_def decoded_contents)

text \<open>
  A run reaches \<open>createMain\<close> when the document has three columns; with fewer it ends
  in a TypeError and calls nothing.
\<close>

lemma run_ok:
  assumes "fetch host ''../../overview.json'' = Inr (Response (Inr doc))"
    and "3 \<le> length (doc_columns doc)"
  shows "run host =
     \<lparr>result = Inr (),
      createMain_calls =
        [(built_spec \<lparr>names = doc_names doc,
                      columns = [length (heap0 host)..<length (heap0 host) + length (doc_columns doc)]\<rparr>
            (length (heap0 host) + length (doc_columns doc)), CONFIG host)],
      final_heap = (heap0 host @ doc_columns doc) @
        built_arrays (numbers host) (doc_columns doc ! 0) (doc_columns doc ! 1)
          (doc_columns doc ! 2)\<rparr>"
proof -
  let ?h = "heap0 host" and ?cs = "doc_columns doc"
  let ?d = "\<lparr>names = doc_names doc, columns = [length ?h..<length ?h + length ?cs]\<rparr>"
  have wf: "wf_data (?h @ ?cs) ?d" by (rule wf_decoded)
  have len: "3 \<le> length (columns ?d)" using assms(2) by simp
  have cols: "(?h @ ?cs) ! (columns ?d ! 0) = ?cs ! 0" "(?h @ ?cs) ! (columns ?d ! 1) = ?cs ! 1"
    "(?h @ ?cs) ! (columns ?d ! 2) = ?cs ! 2"
  proof -
    have "i < 3 \<Longrightarrow> columns ?d ! i = length ?h + i" for i
      using assms(2) by simp
    from this [of 0] this [of 1] this [of 2]
    show "(?h @ ?cs) ! (columns ?d ! 0) = ?cs ! 0" "(?h @ ?cs) ! (columns ?d ! 1) = ?cs ! 1"
      "(?h @ ?cs) ! (columns ?d ! 2) = ?cs ! 2"
      by (simp_all only: nth_append_length_plus)
  qed
  have "and_then (decode doc) (build_params (numbers host)) ?h =
      build_params (numbers host) ?d (?h @ ?cs)"
    by (simp add: and_then_def decode_eq)
  also have "\<dots> = (Inr (built_spec ?d (length (?h @ ?cs))),
      (?h @ ?cs) @ built_arrays (numbers host) (?cs ! 0) (?cs ! 1) (?cs ! 2))"
    using build_params_ok [OF len wf, of "numbers host"] cols by simp
  finally show ?thesis
    using assms(1) by (simp add: run_def)
qed


lemma run_calls_at_most_once: "length (createMain_calls (run host)) \<le> 1"
  by (simp add: run_def split: sum.splits response.splits prod.splits)

text \<open>The structure built depends on the decoded object only through its structure.\<close>

lemma built_view_fail: "length (columns d) < 3 \<Longrightarrow> built_view ar d h = Inl TypeError"
  using build_params_fail [of d ar h]
  by (cases "build_params ar d h") (simp add: built_view_def)

lemma built_view_ok:
  assumes "3 \<le> length (columns d)" and "wf_data h d"
  shows "built_view ar d h =
     Inr (''#chart-2'', ''New chart'', ''date'', ''number'',
      [(names d ''y0'', drop 1 (h ! (columns d ! 0)), drop 1 (h ! (columns d ! 1))),
       (Some (template (names d ''y1'') @ '' x 100''), drop 1 (h ! (columns d ! 0)),
        map (\<lambda>v. times_js ar v (Finite 100)) (drop 1 (h ! (columns d ! 2)))),
       (Some (template (names d ''y1'') @ '' x 1000''), drop 1 (h ! (columns d ! 0)),
        map (\<lambda>v. times_js ar v (Finite 1000)) (drop 1 (h ! (columns d ! 2))))])"
  by (simp add: built_view_def build_params_ok [OF assms] built_params_view)

lemma built_view_structural:
  assumes "wf_data h1 d1" and "wf_data h2 d2" and "data_view h1 d1 = data_view h2 d2"
  shows "built_view ar d1 h1 = built_view ar d2 h2"
proof -
  from assms(3) have ns: "names d1 = names d2"
    and cs: "map (\<lambda>a. h1 ! a) (columns d1) = map (\<lambda>a. h2 ! a) (columns d2)"
    by (simp_all add: data_view_def)
  from cs have len: "length (columns d1) = length (columns d2)"
    by (rule map_eq_imp_length_eq)
  show ?thesis
  proof (cases "3 \<le> length (columns d1)")
    case True
    have "i < 3 \<Longrightarrow> h1 ! (columns d1 ! i) = h2 ! (columns d2 ! i)" for i
    proof -
      assume "i < 3"
      with True len have i: "i < length (columns d1)" "i < length (columns d2)" by simp_all
      from cs have "map (\<lambda>a. h1 ! a) (columns d1) ! i = map (\<lambda>a. h2 ! a) (columns d2) ! i"
        by simp
      with i show ?thesis by simp
    qed
    from this [of 0] this [of 1] this [of 2]
    have "h1 ! (columns d1 ! 0) = h2 ! (columns d2 ! 0)"
      "h1 ! (columns d1 ! 1) = h2 ! (columns d2 ! 1)"
      "h1 ! (columns d1 ! 2) = h2 ! (columns d2 ! 2)"
      by simp_all
    then show ?thesis
      using True len by (simp only: built_view_ok [OF _ assms(1)] built_view_ok [OF _ assms(2)] ns)
  next
    case False
    then show ?thesis using len by (simp add: built_view_fail)
  qed
qed

lemma run_passed:
  assumes "fetch host ''../../overview.json'' = Inr (Response (Inr doc))"
  shows "passed_params (run host) =
      (case built_view (numbers host)
              \<lparr>names = doc_names doc,
               columns = [length (heap0 host)..<length (heap0 host) + length (doc_columns doc)]\<rparr>
              (heap0 host @ doc_columns doc) of
         Inl e \<Rightarrow> [] | Inr v \<Rightarrow> [v])"
    and "result (run host) =
      (case built_view (numbers host)
              \<lparr>names = doc_names doc,
               columns = [length (heap0 host)..<length (heap0 host) + length (doc_columns doc)]\<rparr>
              (heap0 host @ doc_columns doc) of
         Inl e \<Rightarrow> Inl e | Inr v \<Rightarrow> Inr ())"
  using assms
  by (simp_all add: run_def and_then_def decode_eq built_view_def passed_params_def
      split: prod.splits sum.splits)

subsection \<open>The sample documents, evaluated\<close>

lemma ex_wf: "wf_data ex_heap ex_data"
  by (simp add: wf_data_def ex_heap_def ex_data_def)

lemma ex_build: "build_params ex_arith ex_data ex_heap = (Inr ex_params, ex_heap')"
  by (simp add: build_params_def and_then_def slice1_def column_at_def alloc_def
      map_array_def return_js_def ex_heap_def ex_data_def ex_params_def ex_heap'_def
      times_js_def template_def ex_arith_def)

lemma ex_wf2: "wf_data ex_heap2 ex_data2"
  by (simp add: wf_data_def ex_heap2_def ex_data2_def)

lemma ex_build2: "build_params ex_arith ex_data2 ex_heap2 = (Inr ex_params2, ex_heap2')"
  by (simp add: build_params_def and_then_def slice1_def column_at_def alloc_def
      map_array_def return_js_def ex_heap2_def ex_data2_def ex_params2_def ex_heap2'_def
      times_js_def template_def ex_arith_def)

lemma ex_fetch: "fetch ex_host ''../../overview.json'' = Inr (Response (Inr ex_doc))"
  by (simp add: ex_host_def)

lemma ex_doc_len: "3 \<le> length (doc_columns ex_doc)"
  by (simp add: ex_doc_def ex_heap_def)

lemma ex_host_sel: "numbers ex_host = ex_arith" "CONFIG ex_host = 7" "heap0 ex_host = []"
  by (simp_all add: ex_host_def)

lemma ex_run: "run ex_host = \<lparr>result = Inr (), createMain_calls = [(ex_params, 7)], final_heap = ex_heap'\<rparr>"
  by (simp add: run_ok [OF ex_fetch ex_doc_len])
     (simp add: ex_host_sel ex_doc_def ex_heap_def ex_heap'_def ex_params_def built_spec_def
       built_arrays_def template_def times_js_def ex_arith_def)

lemma ex_fetch2: "fetch ex_host2 ''../../overview.json'' = Inr (Response (Inr ex_doc))"
  by (simp add: ex_host2_def)

lemma ex_host2_sel: "numbers ex_host2 = ex_arith" "CONFIG ex_host2 = 9"
    "heap0 ex_host2 = [[JNull], []]"
  by (simp_all add: ex_host2_def)

subsection \<open>Header rows\<close>

text \<open>
  Claim C1. Every array that the example places in \<open>dataSets\<close> holds the elements of a
  fetched column from index 1 on, as \<open>slice(1)\<close> leaves them: the coords of all three
  series are column 0 without its first element, the values of the first series are
  column 1 without its first element, and the values of the second and third series are
  the images of column 2 without its first element. No array passed is a column itself,
  so no column reaches \<open>createMain\<close> with its header.
\<close>

theorem C1_headers_sliced_off:
  assumes "wf_data h d" and "build_params ar d h = (Inr p, h')"
  shows "list_all (\<lambda>s. series_coords h' s = drop 1 (h ! (columns d ! 0))) (dataSets p) \<and>
     map (series_values h') (dataSets p) =
       [drop 1 (h ! (columns d ! 1)),
        map (\<lambda>v. times_js ar v (Finite 100)) (drop 1 (h ! (columns d ! 2))),
        map (\<lambda>v. times_js ar v (Finite 1000)) (drop 1 (h ! (columns d ! 2)))] \<and>
     list_all (\<lambda>s. coords s \<notin> set (columns d) \<and> values s \<notin> set (columns d)) (dataSets p)"
proof -
  note b = build_params_Inr [OF assms]
  have cs: "map (series_coords h') (dataSets p) = replicate 3 (drop 1 (h ! (columns d ! 0)))"
    unfolding b(2) b(3) by (simp add: built_coords numeral_3_eq_3)
  have "list_all (\<lambda>x. x = drop 1 (h ! (columns d ! 0))) (map (series_coords h') (dataSets p))"
    unfolding cs by (simp add: numeral_3_eq_3)
  then have 1: "list_all (\<lambda>s. series_coords h' s = drop 1 (h ! (columns d ! 0))) (dataSets p)"
    by (simp add: list_all_iff)
  have 2: "map (series_values h') (dataSets p) =
       [drop 1 (h ! (columns d ! 1)),
        map (\<lambda>v. times_js ar v (Finite 100)) (drop 1 (h ! (columns d ! 2))),
        map (\<lambda>v. times_js ar v (Finite 1000)) (drop 1 (h ! (columns d ! 2)))]"
    unfolding b(2) b(3) by (rule built_values)
  have "list_all (\<lambda>s. length h \<le> coords s \<and> length h \<le> values s) (dataSets p)"
    unfolding b(2) by (rule built_fresh)
  then have 3:
    "list_all (\<lambda>s. coords s \<notin> set (columns d) \<and> values s \<notin> set (columns d)) (dataSets p)"
    by (simp add: list_all_iff fresh_not_column [OF assms(1)])
  from 1 2 3 show ?thesis by blast
qed

theorem C1_headers_sliced_off_witness:
  "wf_data ex_heap ex_data \<and> build_params ex_arith ex_data ex_heap = (Inr ex_params, ex_heap') \<and>
   map (series_values ex_heap') (dataSets ex_params) =
     [[JNum (Finite 10), JNum (Finite 20)], [JNum (Finite 300), JNum (Finite 400)], [JNum (Finite 3000), JNum (Finite 4000)]] \<and>
   map (series_coords ex_heap') (dataSets ex_params) =
     [[JNum (Finite 1), JNum (Finite 2)], [JNum (Finite 1), JNum (Finite 2)], [JNum (Finite 1), JNum (Finite 2)]]"
proof -
  from C1_headers_sliced_off [OF ex_wf ex_build]
  have "map (series_values ex_heap') (dataSets ex_params) =
       [drop 1 (ex_heap ! (columns ex_data ! 1)),
        map (\<lambda>v. times_js ex_arith v (Finite 100)) (drop 1 (ex_heap ! (columns ex_data ! 2))),
        map (\<lambda>v. times_js ex_arith v (Finite 1000)) (drop 1 (ex_heap ! (columns ex_data ! 2)))]"
    by blast
  then have "map (series_values ex_heap') (dataSets ex_params) =
     [[JNum (Finite 10), JNum (Finite 20)], [JNum (Finite 300), JNum (Finite 400)], [JNum (Finite 3000), JNum (Finite 4000)]]"
    by (simp add: ex_heap_def ex_data_def times_js_def ex_arith_def)
  moreover have "map (series_coords ex_heap') (dataSets ex_params) =
     [[JNum (Finite 1), JNum (Finite 2)], [JNum (Finite 1), JNum (Finite 2)], [JNum (Finite 1), JNum (Finite 2)]]"
    by (simp add: ex_heap'_def ex_heap_def ex_params_def series_coords_def)
  ultimately show ?thesis using ex_wf ex_build by simp
qed

subsection \<open>The call to \<open>createMain\<close>\<close>




subsection \<open>Which column feeds which array\<close>

text \<open>
  Claim C3. Column 0 is the coordinate axis of every series, and the values come from
  column 1 for the first series and from column 2 for the second and third. They come
  from nowhere else: two decoded objects that agree on column 0 get the same coords,
  whatever their other columns and names are, and likewise the values of a series
  are the same once the one column they are read from is the same.
\<close>

theorem C3_column_roles:
  assumes "wf_data h d" and "build_params ar d h = (Inr p, h')"
    and "wf_data h2 d2" and "build_params ar d2 h2 = (Inr p2, h2')"
  shows "map (series_coords h') (dataSets p) = replicate 3 (drop 1 (h ! (columns d ! 0))) \<and>
     series_values h' (dataSets p ! 0) = drop 1 (h ! (columns d ! 1)) \<and>
     series_values h' (dataSets p ! 1) =
       map (\<lambda>v. times_js ar v (Finite 100)) (drop 1 (h ! (columns d ! 2))) \<and>
     series_values h' (dataSets p ! 2) =
       map (\<lambda>v. times_js ar v (Finite 1000)) (drop 1 (h ! (columns d ! 2))) \<and>
     (h ! (columns d ! 0) = h2 ! (columns d2 ! 0) \<longrightarrow>
        map (series_coords h') (dataSets p) = map (series_coords h2') (dataSets p2)) \<and>
     (h ! (columns d ! 1) = h2 ! (columns d2 ! 1) \<longrightarrow>
        series_values h' (dataSets p ! 0) = series_values h2' (dataSets p2 ! 0)) \<and>
     (h ! (columns d ! 2) = h2 ! (columns d2 ! 2) \<longrightarrow>
        series_values h' (dataSets p ! 1) = series_values h2' (dataSets p2 ! 1) \<and>
        series_values h' (dataSets p ! 2) = series_values h2' (dataSets p2 ! 2))"
proof -
  note c = build_params_coords [OF assms(1,2)] and c2 = build_params_coords [OF assms(3,4)]
  note v = nth3_of_map [OF build_params_values [OF assms(1,2)]]
  note v2 = nth3_of_map [OF build_params_values [OF assms(3,4)]]
  show ?thesis
    by (simp add: c c2 v v2)
qed

theorem C3_column_roles_witness:
  "wf_data ex_heap ex_data \<and> build_params ex_arith ex_data ex_heap = (Inr ex_params, ex_heap') \<and>
   wf_data ex_heap2 ex_data2 \<and>
   build_params ex_arith ex_data2 ex_heap2 = (Inr ex_params2, ex_heap2') \<and>
   ex_heap ! (columns ex_data ! 0) = ex_heap2 ! (columns ex_data2 ! 0) \<and>
   map (series_coords ex_heap') (dataSets ex_params) =
     map (series_coords ex_heap2') (dataSets ex_params2) \<and>
   series_values ex_heap' (dataSets ex_params ! 1) = [JNum (Finite 300), JNum (Finite 400)] \<and>
   series_values ex_heap2' (dataSets ex_params2 ! 1) = [JNum (Finite 700)]"
proof -
  note t = C3_column_roles [OF ex_wf ex_build ex_wf2 ex_build2]
  have a: "ex_heap ! (columns ex_data ! 0) = ex_heap2 ! (columns ex_data2 ! 0)"
    by (simp add: ex_heap_def ex_data_def ex_heap2_def ex_data2_def)
  from t have "ex_heap ! (columns ex_data ! 0) = ex_heap2 ! (columns ex_data2 ! 0) \<longrightarrow>
     map (series_coords ex_heap') (dataSets ex_params) =
       map (series_coords ex_heap2') (dataSets ex_params2)"
    by (elim conjE)
  with a have c: "map (series_coords ex_heap') (dataSets ex_params) =
       map (series_coords ex_heap2') (dataSets ex_params2)"
    by (rule rev_mp)
  have v: "series_values ex_heap' (dataSets ex_params ! 1) = [JNum (Finite 300), JNum (Finite 400)]"
    by (simp add: ex_heap'_def ex_heap_def ex_params_def series_values_def)
  have v2: "series_values ex_heap2' (dataSets ex_params2 ! 1) = [JNum (Finite 700)]"
    by (simp add: ex_heap2'_def ex_heap2_def ex_params2_def series_values_def)
  from ex_wf ex_build ex_wf2 ex_build2 a c v v2 show ?thesis
    by (intro conjI)
qed

subsection \<open>Lengths\<close>

text \<open>
  Claim C4. When all columns of the decoded object have the same length, each of the three
  series built has as many coords as values.
\<close>

theorem C4_equal_lengths:
  assumes "wf_data h d" and "list_all (\<lambda>a. length (h ! a) = n) (columns d)"
    and "build_params ar d h = (Inr p, h')"
  shows "list_all (\<lambda>s. length (series_coords h' s) = length (series_values h' s)) (dataSets p)"
proof -
  note b = build_params_Inr [OF assms(1,3)]
  have "i < 3 \<Longrightarrow> length (h ! (columns d ! i)) = n" for i
    using assms(2) b(1) by (simp add: list_all_length)
  from this [of 0] this [of 1] this [of 2]
  have len: "length (h ! (columns d ! 0)) = n" "length (h ! (columns d ! Suc 0)) = n"
    "length (h ! (columns d ! 2)) = n"
    by simp_all
  have "map length (map (series_coords h') (dataSets p)) = [n - 1, n - 1, n - 1]"
    unfolding build_params_coords [OF assms(1,3)] by (simp add: len numeral_3_eq_3)
  moreover have "map length (map (series_values h') (dataSets p)) = [n - 1, n - 1, n - 1]"
    unfolding build_params_values [OF assms(1,3)] by (simp add: len)
  ultimately have "map (\<lambda>s. length (series_coords h' s)) (dataSets p) =
      map (\<lambda>s. length (series_values h' s)) (dataSets p)"
    by (simp add: comp_def)
  then show ?thesis
    by (simp only: map_eq_conv list_all_iff)
qed

theorem C4_equal_lengths_witness:
  "wf_data ex_heap ex_data \<and> list_all (\<lambda>a. length (ex_heap ! a) = 3) (columns ex_data) \<and>
   build_params ex_arith ex_data ex_heap = (Inr ex_params, ex_heap') \<and>
   list_all (\<lambda>s. length (series_coords ex_heap' s) = length (series_values ex_heap' s))
     (dataSets ex_params)"
proof -
  have eq: "list_all (\<lambda>a. length (ex_heap ! a) = 3) (columns ex_data)"
    by (simp add: ex_heap_def ex_data_def)
  from C4_equal_lengths [OF ex_wf eq ex_build]
  have "list_all (\<lambda>s. length (series_coords ex_heap' s) = length (series_values ex_heap' s))
     (dataSets ex_params)" .
  with ex_wf eq ex_build show ?thesis by (intro conjI)
qed

subsection \<open>No mutation, no aliasing\<close>

text \<open>
  Claim C5. Building the description changes no array that existed before: the store
  afterwards starts with the store before, so the decoded object reads the same names and
  the same column contents, and every coords and values array of the description is an
  array allocated by the build.
\<close>

theorem C5_data_not_mutated:
  assumes "wf_data h d" and "build_params ar d h = (Inr p, h')"
  shows "take (length h) h' = h \<and> data_view h' d = data_view h d \<and>
     list_all (\<lambda>s. length h \<le> coords s \<and> coords s < length h' \<and>
                  length h \<le> values s \<and> values s < length h') (dataSets p)"
proof -
  note b = build_params_Inr [OF assms]
  have 1: "take (length h) h' = h"
    unfolding b(3) by simp
  have "a \<in> set (columns d) \<Longrightarrow> h' ! a = h ! a" for a
    using assms(1) unfolding b(3) by (simp add: wf_data_def list_all_iff nth_append)
  then have 2: "data_view h' d = data_view h d"
    by (simp add: data_view_def)
  have 3: "list_all (\<lambda>s. length h \<le> coords s \<and> coords s < length h' \<and>
                  length h \<le> values s \<and> values s < length h') (dataSets p)"
    unfolding b(2) b(3) by (simp add: built_spec_def built_arrays_def)
  from 1 2 3 show ?thesis by (intro conjI)
qed

theorem C5_data_not_mutated_witness:
  "wf_data ex_heap ex_data \<and> build_params ex_arith ex_data ex_heap = (Inr ex_params, ex_heap') \<and>
   take (length ex_heap) ex_heap' = ex_heap \<and>
   data_view ex_heap' ex_data = data_view ex_heap ex_data \<and>
   map coords (dataSets ex_params) = [3, 5, 8] \<and> map values (dataSets ex_params) = [4, 7, 10] \<and>
   length ex_heap = 3"
proof -
  note t = C5_data_not_mutated [OF ex_wf ex_build]
  have "take (length ex_heap) ex_heap' = ex_heap"
    by (rule t [THEN conjunct1])
  moreover have "data_view ex_heap' ex_data = data_view ex_heap ex_data"
    by (rule t [THEN conjunct2, THEN conjunct1])
  moreover have "map coords (dataSets ex_params) = [3, 5, 8]"
    "map values (dataSets ex_params) = [4, 7, 10]" "length ex_heap = 3"
    by (simp_all add: ex_params_def ex_heap_def)
  ultimately show ?thesis using ex_wf ex_build by (intro conjI)
qed

text \<open>
  Claim C9. The three series carry the same coordinate sequence, column 0 without its
  first element, in three arrays that are distinct from one another, from every values
  array and from every column of the decoded object.
\<close>

theorem C9_coords_equal_not_aliased:
  assumes "wf_data h d" and "build_params ar d h = (Inr p, h')"
  shows "length (dataSets p) = 3 \<and>
     map (series_coords h') (dataSets p) = replicate 3 (drop 1 (h ! (columns d ! 0))) \<and>
     distinct (map coords (dataSets p) @ map values (dataSets p)) \<and>
     list_all (\<lambda>s. coords s \<notin> set (columns d)) (dataSets p)"
proof -
  note b = build_params_Inr [OF assms]
  have 1: "length (dataSets p) = 3" and 3: "distinct (map coords (dataSets p) @ map values (dataSets p))"
    unfolding b(2) by (simp_all add: built_spec_def)
  have "list_all (\<lambda>s. length h \<le> coords s \<and> length h \<le> values s) (dataSets p)"
    unfolding b(2) by (rule built_fresh)
  then have 4: "list_all (\<lambda>s. coords s \<notin> set (columns d)) (dataSets p)"
    by (simp add: list_all_iff fresh_not_column [OF assms(1)])
  from 1 build_params_coords [OF assms] 3 4 show ?thesis by (intro conjI)
qed

theorem C9_coords_equal_not_aliased_witness:
  "wf_data ex_heap ex_data \<and> build_params ex_arith ex_data ex_heap = (Inr ex_params, ex_heap') \<and>
   map (series_coords ex_heap') (dataSets ex_params) =
     [[JNum (Finite 1), JNum (Finite 2)], [JNum (Finite 1), JNum (Finite 2)], [JNum (Finite 1), JNum (Finite 2)]] \<and>
   map coords (dataSets ex_params) = [3, 5, 8] \<and> columns ex_data = [0, 1, 2]"
proof -
  from C9_coords_equal_not_aliased [OF ex_wf ex_build]
  have "map (series_coords ex_heap') (dataSets ex_params) =
      replicate 3 (drop 1 (ex_heap ! (columns ex_data ! 0)))"
    by (elim conjE)
  then have "map (series_coords ex_heap') (dataSets ex_params) =
     [[JNum (Finite 1), JNum (Finite 2)], [JNum (Finite 1), JNum (Finite 2)], [JNum (Finite 1), JNum (Finite 2)]]"
    by (simp add: ex_heap_def ex_data_def numeral_3_eq_3)
  moreover have "map coords (dataSets ex_params) = [3, 5, 8]" "columns ex_data = [0, 1, 2]"
    by (simp_all add: ex_params_def ex_data_def)
  ultimately show ?thesis using ex_wf ex_build by (intro conjI)
qed

subsection \<open>Type tags\<close>

text \<open>
  Claim C8. The description built has \<open>coordType\<close> \<open>date\<close>, one of the allowed tags
  date, number and category, and \<open>valueType\<close> \<open>number\<close>, the one allowed value tag.
\<close>

theorem C8_type_tags:
  assumes "build_params ar d h = (Inr p, h')"
  shows "coordType p = ''date'' \<and> coordType p \<in> allowed_coordTypes \<and>
     valueType p = ''number'' \<and> valueType p \<in> allowed_valueTypes"
  unfolding build_params_spec [OF assms]
  by (simp add: built_spec_def allowed_coordTypes_def allowed_valueTypes_def)

theorem C8_type_tags_witness:
  "build_params ex_arith ex_data ex_heap = (Inr ex_params, ex_heap') \<and>
   coordType ex_params = ''date'' \<and> valueType ex_params = ''number'' \<and>
   coordType ex_params \<in> allowed_coordTypes \<and> valueType ex_params \<in> allowed_valueTypes"
  using C8_type_tags [OF ex_build] ex_build by blast

subsection \<open>Determinism\<close>

text \<open>
  Claim C10. What a run passes to \<open>createMain\<close> is determined by the decoded document:
  two hosts that serve the same document and run the same arithmetic pass
  structurally equal descriptions (selector, content name, type tags, and the names,
  coords and values of all series) and settle alike, whatever their stores and their
  \<open>CONFIG\<close>s are. This holds for every arithmetic the two runs share, exact
  arithmetic included.
\<close>

theorem C10_params_deterministic:
  assumes "fetch host1 ''../../overview.json'' = Inr (Response (Inr doc))"
    and "fetch host2 ''../../overview.json'' = Inr (Response (Inr doc))"
    and "numbers host1 = numbers host2"
  shows "passed_params (run host1) = passed_params (run host2) \<and>
     result (run host1) = result (run host2)"
proof -
  let ?d1 = "\<lparr>names = doc_names doc,
      columns = [length (heap0 host1)..<length (heap0 host1) + length (doc_columns doc)]\<rparr>"
  let ?d2 = "\<lparr>names = doc_names doc,
      columns = [length (heap0 host2)..<length (heap0 host2) + length (doc_columns doc)]\<rparr>"
  have "data_view (heap0 host1 @ doc_columns doc) ?d1 = data_view (heap0 host2 @ doc_columns doc) ?d2"
    by (simp only: data_view_decoded)
  then have "built_view (numbers host1) ?d1 (heap0 host1 @ doc_columns doc) =
      built_view (numbers host1) ?d2 (heap0 host2 @ doc_columns doc)"
    by (rule built_view_structural [OF wf_decoded wf_decoded])
  then show ?thesis
    by (simp only: run_passed [OF assms(1)] run_passed [OF assms(2)] assms(3) simp_thms)
qed

theorem C10_params_deterministic_witness:
  "fetch ex_host ''../../overview.json'' = Inr (Response (Inr ex_doc)) \<and>
   fetch ex_host2 ''../../overview.json'' = Inr (Response (Inr ex_doc)) \<and>
   numbers ex_host = numbers ex_host2 \<and>
   heap0 ex_host \<noteq> heap0 ex_host2 \<and> CONFIG ex_host \<noteq> CONFIG ex_host2 \<and>
   passed_params (run ex_host2) =
     [(''#chart-2'', ''New chart'', ''date'', ''number'',
       [(Some ''Joined'', [JNum (Finite 1), JNum (Finite 2)], [JNum (Finite 10), JNum (Finite 20)]),
        (Some ''Left x 100'', [JNum (Finite 1), JNum (Finite 2)], [JNum (Finite 300), JNum (Finite 400)]),
        (Some ''Left x 1000'', [JNum (Finite 1), JNum (Finite 2)], [JNum (Finite 3000), JNum (Finite 4000)])])] \<and>
   result (run ex_host2) = Inr ()"
proof -
  have ar: "numbers ex_host = numbers ex_host2"
    by (simp add: ex_host_sel ex_host2_sel)
  note t = C10_params_deterministic [OF ex_fetch ex_fetch2 ar]
  have p: "passed_params (run ex_host) =
     [(''#chart-2'', ''New chart'', ''date'', ''number'',
       [(Some ''Joined'', [JNum (Finite 1), JNum (Finite 2)], [JNum (Finite 10), JNum (Finite 20)]),
        (Some ''Left x 100'', [JNum (Finite 1), JNum (Finite 2)], [JNum (Finite 300), JNum (Finite 400)]),
        (Some ''Left x 1000'', [JNum (Finite 1), JNum (Finite 2)], [JNum (Finite 3000), JNum (Finite 4000)])])]"
    by (simp add: ex_run passed_params_def params_view_def series_view_def ex_params_def
        ex_heap'_def ex_heap_def series_coords_def series_values_def)
  have r: "result (run ex_host) = Inr ()"
    by (simp add: ex_run)
  have 1: "passed_params (run ex_host2) =
     [(''#chart-2'', ''New chart'', ''date'', ''number'',
       [(Some ''Joined'', [JNum (Finite 1), JNum (Finite 2)], [JNum (Finite 10), JNum (Finite 20)]),
        (Some ''Left x 100'', [JNum (Finite 1), JNum (Finite 2)], [JNum (Finite 300), JNum (Finite 400)]),
        (Some ''Left x 1000'', [JNum (Finite 1), JNum (Finite 2)], [JNum (Finite 3000), JNum (Finite 4000)])])]"
    using t [THEN conjunct1] p by simp
  have 2: "result (run ex_host2) = Inr ()"
    using t [THEN conjunct2] r by simp
  have 3: "heap0 ex_host \<noteq> heap0 ex_host2" "CONFIG ex_host \<noteq> CONFIG ex_host2"
    by (simp_all add: ex_host_sel ex_host2_sel)
  from ex_fetch ex_fetch2 ar 3 1 2 show ?thesis by (intro conjI)
qed

section \<open>Properties of the scale\<close>

lemma fold_min_const: "list_all (\<lambda>v. v = c) vs \<Longrightarrow> fold min vs (c::real) = c"
  by (induction vs) simp_all

lemma fold_max_const: "list_all (\<lambda>v. v = c) vs \<Longrightarrow> fold max vs (c::real) = c"
  by (induction vs) simp_all

lemma widen_strict: "fst (widen k v) < snd (widen k v)"
  by (cases k) (simp_all add: widen_def)

lemma widen_symmetric: "v - fst (widen k v) = snd (widen k v) - v"
  by (cases k) (simp_all add: widen_def)

lemma build_scale_degenerate:
  assumes "vs \<noteq> []" and "list_all (\<lambda>v. v = c) vs"
  shows "build_scale k vs rng =
     Inr \<lparr>domainMin = fst (widen k c), domainMax = snd (widen k c),
          rangeMin = fst rng, rangeMax = snd rng\<rparr>"
proof (cases vs)
  case Nil
  with assms(1) show ?thesis by simp
next
  case (Cons v rest)
  with assms(2) have v: "v = c" and rest: "list_all (\<lambda>v. v = c) rest"
    by simp_all
  show ?thesis
    unfolding Cons v
    by (simp add: build_scale_def Let_def fold_min_const [OF rest] fold_max_const [OF rest])
qed

lemma round_trip:
  assumes "domainMin s \<noteq> domainMax s" and "rangeMin s \<noteq> rangeMax s"
  shows "\<exists>q. toPixel s v = Some q \<and> toDomain s q = Some v"
  using assms by (simp add: toPixel_def toDomain_def)

lemma ex_scale:
  "build_scale NumberDomain [5, 5, 5] (0, 100) =
     Inr \<lparr>domainMin = 4.95, domainMax = 5.05, rangeMin = 0, rangeMax = 100\<rparr>"
  by (simp add: build_scale_def Let_def widen_def)

text \<open>
  Claim C6. Building a scale from a non-empty sequence of equal values does not fail, and
  the scale has \<open>domainMin < domainMax\<close>, placed symmetrically around the value; so
  \<open>toPixel\<close> never divides by zero, and over a pixel range that is not a single point
  \<open>toDomain\<close> inverts it.
\<close>

theorem C6_degenerate_domain_widened:
  assumes "vs \<noteq> []" and "list_all (\<lambda>v. v = c) vs"
  shows "\<exists>s. build_scale k vs (r0, r1) = Inr s \<and>
     domainMin s < domainMax s \<and>
     c - domainMin s = domainMax s - c \<and>
     (\<forall>v. toPixel s v \<noteq> None) \<and>
     (r0 \<noteq> r1 \<longrightarrow> (\<forall>v. \<exists>q. toPixel s v = Some q \<and> toDomain s q = Some v))"
proof -
  let ?s = "\<lparr>domainMin = fst (widen k c), domainMax = snd (widen k c),
          rangeMin = r0, rangeMax = r1\<rparr>"
  have b: "build_scale k vs (r0, r1) = Inr ?s"
    using build_scale_degenerate [OF assms, of k "(r0, r1)"] by simp
  have lt: "domainMin ?s < domainMax ?s"
    by (simp add: widen_strict)
  have sym: "c - domainMin ?s = domainMax ?s - c"
    by (simp add: widen_symmetric)
  have px: "\<forall>v. toPixel ?s v \<noteq> None"
    using lt by (simp add: toPixel_def)
  have rt: "r0 \<noteq> r1 \<longrightarrow> (\<forall>v. \<exists>q. toPixel ?s v = Some q \<and> toDomain ?s q = Some v)"
  proof (intro impI allI)
    fix v assume "r0 \<noteq> r1"
    then have "rangeMin ?s \<noteq> rangeMax ?s" by simp
    moreover from lt have "domainMin ?s \<noteq> domainMax ?s" by simp
    ultimately show "\<exists>q. toPixel ?s v = Some q \<and> toDomain ?s q = Some v"
      by (rule round_trip [rotated])
  qed
  from b lt sym px rt show ?thesis by blast
qed

theorem C6_degenerate_domain_widened_witness:
  "[5, 5, 5::real] \<noteq> [] \<and> list_all (\<lambda>v. v = 5) [5, 5, 5::real] \<and>
   build_scale NumberDomain [5, 5, 5] (0, 100) =
     Inr \<lparr>domainMin = 4.95, domainMax = 5.05, rangeMin = 0, rangeMax = 100\<rparr> \<and>
   toPixel \<lparr>domainMin = 4.95, domainMax = 5.05, rangeMin = 0, rangeMax = 100\<rparr> 5 = Some 50 \<and>
   toDomain \<lparr>domainMin = 4.95, domainMax = 5.05, rangeMin = 0, rangeMax = 100\<rparr> 50 = Some 5"
proof -
  have a: "[5, 5, 5::real] \<noteq> []" and b: "list_all (\<lambda>v. v = 5) [5, 5, 5::real]"
    by simp_all
  let ?s = "\<lparr>domainMin = 4.95, domainMax = 5.05, rangeMin = 0, rangeMax = 100\<rparr>"
  from C6_degenerate_domain_widened [OF a b, of NumberDomain 0 100]
  have "\<forall>v. \<exists>q. toPixel ?s v = Some q \<and> toDomain ?s q = Some v"
    by (simp add: ex_scale)
  then obtain q where q: "toPixel ?s 5 = Some q" "toDomain ?s q = Some 5"
    by blast
  have "toPixel ?s 5 = Some 50"
    by (simp add: toPixel_def)
  with q have "toPixel ?s 5 = Some 50" "toDomain ?s 50 = Some 5"
    by simp_all
  with a b ex_scale show ?thesis by (intro conjI)
qed


text \<open>A scale that \<open>build\<close> returns never has a single-point domain, and keeps the range.\<close>

lemma build_scale_Inr:
  assumes "build_scale k vs rng = Inr s"
  shows "domainMin s \<noteq> domainMax s" and "rangeMin s = fst rng" and "rangeMax s = snd rng"
proof -
  obtain v rest where vs: "vs = v # rest"
    using assms by (cases vs) (simp_all add: build_scale_def)
  let ?lo = "fold min rest v" and ?hi = "fold max rest v"
  let ?dom = "if ?lo = ?hi then widen k ?lo else (?lo, ?hi)"
  from assms have s: "s = \<lparr>domainMin = fst ?dom, domainMax = snd ?dom,
      rangeMin = fst rng, rangeMax = snd rng\<rparr>"
    unfolding vs by (simp add: build_scale_def Let_def)
  have "fst ?dom \<noteq> snd ?dom"
    using widen_strict [of k ?lo] by (cases "?lo = ?hi") simp_all
  then show "domainMin s \<noteq> domainMax s" and "rangeMin s = fst rng" and "rangeMax s = snd rng"
    unfolding s by simp_all
qed

text \<open>
  Claim C7, amended. For every scale that \<open>build\<close> returns over a pixel range whose two
  ends differ, from a non-degenerate domain or from a widened degenerate one, and for every
  domain value \<open>v\<close>, \<open>toDomain (toPixel v)\<close> is defined and equals \<open>v\<close>. The scale
  is over exact reals, where the round trip is exact, hence within every tolerance.
\<close>

theorem C7_round_trip:
  assumes "build_scale k vs (r0, r1) = Inr s" and "r0 \<noteq> r1"
  shows "\<exists>q. toPixel s v = Some q \<and> toDomain s q = Some v"
proof -
  note b = build_scale_Inr [OF assms(1)]
  from b(2) b(3) assms(2) have "rangeMin s \<noteq> rangeMax s"
    by simp
  with b(1) show ?thesis
    by (rule round_trip)
qed

theorem C7_round_trip_witness:
  "build_scale NumberDomain [1, 3] (0, 100) =
     Inr \<lparr>domainMin = 1, domainMax = 3, rangeMin = 0, rangeMax = 100\<rparr> \<and>
   (0::real) \<noteq> 100 \<and>
   toPixel \<lparr>domainMin = 1, domainMax = 3, rangeMin = 0, rangeMax = 100\<rparr> 2 = Some 50 \<and>
   toDomain \<lparr>domainMin = 1, domainMax = 3, rangeMin = 0, rangeMax = 100\<rparr> 50 = Some 2"
proof -
  let ?s = "\<lparr>domainMin = 1, domainMax = 3, rangeMin = 0, rangeMax = 100\<rparr>"
  have b: "build_scale NumberDomain [1, 3] (0, 100) = Inr ?s"
    by (simp add: build_scale_def Let_def)
  have r: "(0::real) \<noteq> 100"
    by simp
  from C7_round_trip [OF b r, of 2]
  obtain q where q: "toPixel ?s 2 = Some q" "toDomain ?s q = Some 2"
    by blast
  have "toPixel ?s 2 = Some 50"
    by (simp add: toPixel_def)
  with q have "toPixel ?s 2 = Some 50" "toDomain ?s 50 = Some 2"
    by simp_all
  with b r show ?thesis by (intro conjI)
qed

text \<open>
  The claim as it stands puts no condition on the pixel range. Over the single-point range
  from 7 to 7 a scale is built from the non-degenerate domain of 1 and 3, \<open>toPixel\<close>
  sends both 1 and 3 to the pixel 7, and \<open>toDomain\<close> is undefined there.
\<close>

theorem C7_point_range_counterexample:
  "build_scale NumberDomain [1, 3] (7, 7) =
     Inr \<lparr>domainMin = 1, domainMax = 3, rangeMin = 7, rangeMax = 7\<rparr> \<and>
   toPixel \<lparr>domainMin = 1, domainMax = 3, rangeMin = 7, rangeMax = 7\<rparr> 1 = Some 7 \<and>
   toPixel \<lparr>domainMin = 1, domainMax = 3, rangeMin = 7, rangeMax = 7\<rparr> 3 = Some 7 \<and>
   toDomain \<lparr>domainMin = 1, domainMax = 3, rangeMin = 7, rangeMax = 7\<rparr> 7 = None"
  by (simp add: build_scale_def Let_def toPixel_def toDomain_def)

end
